theory Spec2Isabelle
  imports Main "HOL-Library.Sublist"
begin

section \<open>Data model of \<open>BaneIngestSwitcher.tsx\<close>\<close>

text \<open>
  The component keeps its data in React state cells and refs and talks to OBS through
  asynchronous calls. The embedding makes three things explicit.

  \<^item> \<^bold>\<open>State.\<close> The state cells and refs are the fields of the record \<open>sys\<close>; a
    setter call is a record update.
  \<^item> \<^bold>\<open>Closures.\<close> A function of the component body reads \<open>isConnected\<close>,
    \<open>selectedSource\<close> and \<open>sources\<close> as constants of the render that created it. Those
    captured values are the record \<open>closure\<close>, passed to every function as \<open>env\<close>.
    A read of a ref (\<open>obs.current\<close>, \<open>selectedSourceRef.current\<close>) goes to the live
    \<open>sys\<close>.
  \<^item> \<^bold>\<open>Await.\<close> An async function is split at its \<open>await\<close>: the part before it
    appends the request and its continuation to \<open>inflight\<close>; the part after it is a
    \<open>_resume\<close> function applied to the response, in whatever state the system then is.

  Connection address, port and password, the link list and its editing fields, the panel
  flag and local storage do not influence any function below and are left out.
\<close>

text \<open>\<open>type LinkItem = { id; name; url }\<close>. The fields \<open>id\<close> and \<open>name\<close> carry the prefix
  \<open>link_\<close>: \<open>id\<close> is a constant of HOL and \<open>name\<close> is the field of \<open>OBSSource\<close>.\<close>

record LinkItem =
  link_id :: string
  link_name :: string
  url :: string

text \<open>\<open>type OBSSource = { name; kind }\<close>.\<close>

record OBSSource =
  name :: string
  kind :: string

text \<open>An entry of the \<open>inputs\<close> array answered to \<open>GetInputList\<close>; \<open>inputKind\<close> is read
  \<open>as string | null\<close>.\<close>

record obs_input =
  inputName :: string
  inputKind :: "string option"

text \<open>A value of a settings object sent to OBS.\<close>

datatype jvalue = JString string | JBool bool

text \<open>The values a function body captured from its render.\<close>

record closure =
  cIsConnected :: bool
  cSelectedSource :: string
  cSources :: "OBSSource list"

text \<open>The calls made on \<open>obs.current\<close>. \<open>SetInputSettings\<close> carries \<open>inputName\<close>,
  \<open>inputSettings\<close> (in the order the object literal lists the fields) and \<open>overlay\<close>.\<close>

datatype request =
    Connect
  | Disconnect
  | GetInputList
  | GetInputSettings string
  | SetInputSettings string "(string \<times> jvalue) list" bool

text \<open>What a call resolves to, or the error it rejects with (\<open>RError message\<close>, an
  error whose \<open>message\<close> is that string).
  \<open>RInputSettings inputKind inputSettings\<close>: the two settings fields the code reads are
  cast \<open>as string\<close>, so the settings object is a list of string-valued fields.\<close>

datatype response =
    ROk
  | RInputList "obs_input list"
  | RInputSettings string "(string \<times> string) list"
  | RError string

text \<open>The rest of an async function after its \<open>await\<close>, with what it still reads.\<close>

datatype pending =
    KConnect closure
  | KDisconnect
  | KFetchActiveState
  | KFetchSources closure
  | KSwitchMedia LinkItem

record sys =
  obs :: bool
  isConnected :: bool
  connError :: "string option"
  sources :: "OBSSource list"
  selectedSource :: string
  currentSourceUrl :: "string option"
  selectedSourceRef :: string
  inflight :: "(request \<times> pending) list"
  listeners :: "closure list"
  alerts :: "string list"
  rendered :: closure

text \<open>\<open>obs\<close> is \<open>obs.current \<noteq> null\<close>; \<open>listeners\<close> holds, for every pair of listeners
  registered by \<open>connectToOBS\<close>, the closure they were created in; \<open>alerts\<close> are the
  messages shown with \<open>alert\<close>; \<open>rendered\<close> is the closure of the latest render, the one
  the buttons of the page call into.\<close>

definition SUPPORTED_KINDS :: "string list" where
  "SUPPORTED_KINDS = [''ffmpeg_source'', ''vlc_source'', ''browser_source'']"

definition await :: "request \<Rightarrow> pending \<Rightarrow> sys \<Rightarrow> sys" where
  "await rq k s = s\<lparr>inflight := inflight s @ [(rq, k)]\<rparr>"

definition alert :: "string \<Rightarrow> sys \<Rightarrow> sys" where
  "alert msg s = s\<lparr>alerts := alerts s @ [msg]\<rparr>"

section \<open>Active state (lines 152--183)\<close>

text \<open>\<open>(x as string) || d\<close>: an absent field is \<open>undefined\<close>, and the empty string is
  falsy as well.\<close>

definition orElse :: "string option \<Rightarrow> string \<Rightarrow> string" where
  "orElse x d = (case x of None \<Rightarrow> d | Some v \<Rightarrow> if v = [] then d else v)"

text \<open>Lines 163--169; \<open>iKind\<close> and \<open>iSettings\<close> are the \<open>inputKind\<close> and
  \<open>inputSettings\<close> of the answer.\<close>

definition activeUrlOf :: "string \<Rightarrow> (string \<times> string) list \<Rightarrow> string" where
  "activeUrlOf iKind iSettings =
     (if iKind = ''browser_source''
      then orElse (map_of iSettings ''url'') ''''
      else orElse (map_of iSettings ''local_file'')
             (orElse (map_of iSettings ''url'') ''''))"

text \<open>Lines 158--161, up to the \<open>await\<close>. \<open>isConnected\<close> is the captured one.\<close>

definition fetchActiveState :: "closure \<Rightarrow> string \<Rightarrow> sys \<Rightarrow> sys" where
  "fetchActiveState env sourceName s =
     (if \<not> obs s \<or> \<not> cIsConnected env \<or> sourceName = [] then s
      else await (GetInputSettings sourceName) KFetchActiveState s)"

text \<open>Lines 161--173, from the \<open>await\<close> on. The \<open>catch\<close> block is empty; an answer
  of another shape fails in the destructuring and ends there too.\<close>

definition fetchActiveState_resume :: "response \<Rightarrow> sys \<Rightarrow> sys" where
  "fetchActiveState_resume r s =
     (case r of
        RInputSettings iKind iSettings \<Rightarrow>
          s\<lparr>currentSourceUrl := Some (activeUrlOf iKind iSettings)\<rparr>
      | _ \<Rightarrow> s)"

text \<open>Lines 152--156.\<close>

definition updateActiveStateIfMatches :: "closure \<Rightarrow> string \<Rightarrow> sys \<Rightarrow> sys" where
  "updateActiveStateIfMatches env changedInputName s =
     (if changedInputName = selectedSourceRef s
      then fetchActiveState env changedInputName s
      else s)"

text \<open>The effect of lines 177--183, run in the render \<open>env\<close>.\<close>

definition selectionEffect :: "closure \<Rightarrow> sys \<Rightarrow> sys" where
  "selectionEffect env s =
     (if cSelectedSource env \<noteq> [] \<and> cIsConnected env
      then fetchActiveState env (cSelectedSource env) s
      else s\<lparr>currentSourceUrl := None\<rparr>)"

section \<open>Source list (lines 186--210)\<close>

text \<open>The filter and the map of lines 190--195. The second case of \<open>toSource\<close> is never
  reached behind the filter.\<close>

definition supported :: "obs_input \<Rightarrow> bool" where
  "supported i =
     (case inputKind i of
        None \<Rightarrow> False
      | Some k \<Rightarrow> k \<noteq> [] \<and> k \<in> set SUPPORTED_KINDS)"

definition toSource :: "obs_input \<Rightarrow> OBSSource" where
  "toSource i =
     (case inputKind i of
        Some k \<Rightarrow> \<lparr>name = inputName i, kind = k\<rparr>
      | None \<Rightarrow> \<lparr>name = inputName i, kind = []\<rparr>)"

definition mediaSourcesOf :: "obs_input list \<Rightarrow> OBSSource list" where
  "mediaSourcesOf inputs = map toSource (filter supported inputs)"

text \<open>\<open>xs.find(s => s.name === n)\<close>.\<close>

definition findSource :: "string \<Rightarrow> OBSSource list \<Rightarrow> OBSSource option" where
  "findSource n xs = find (\<lambda>x. name x = n) xs"

text \<open>Lines 186--189, up to the \<open>await\<close>.\<close>

definition fetchSources :: "closure \<Rightarrow> sys \<Rightarrow> sys" where
  "fetchSources env s =
     (if \<not> obs s \<or> \<not> cIsConnected env then s
      else await GetInputList (KFetchSources env) s)"

text \<open>Lines 189--209, from the \<open>await\<close> on. \<open>selectedSource\<close> is the captured one.\<close>

definition fetchSources_resume :: "closure \<Rightarrow> response \<Rightarrow> sys \<Rightarrow> sys" where
  "fetchSources_resume env r s =
     (case r of
        RInputList inputs \<Rightarrow>
          (let mediaSources = mediaSourcesOf inputs;
               s1 = s\<lparr>sources := mediaSources\<rparr>
           in case mediaSources of
                first # _ \<Rightarrow>
                  (if cSelectedSource env = [] \<or>
                      findSource (cSelectedSource env) mediaSources = None
                   then s1\<lparr>selectedSource := name first\<rparr>
                   else s1)
              | [] \<Rightarrow> s1\<lparr>selectedSource := []\<rparr>)
      | _ \<Rightarrow> s)"

section \<open>Media switching (lines 213--252)\<close>

text \<open>Line 223.\<close>

definition isNetworkLink :: "string \<Rightarrow> bool" where
  "isNetworkLink u =
     (prefix ''http'' u \<or> prefix ''rtmp'' u \<or> prefix ''srt'' u \<or> prefix ''udp'' u)"

text \<open>The \<open>switch\<close> of lines 226--240.\<close>

definition settingsFor :: "string \<Rightarrow> string \<Rightarrow> (string \<times> jvalue) list" where
  "settingsFor k u =
     (if k = ''ffmpeg_source'' \<or> k = ''vlc_source''
      then [(''local_file'', JString u), (''is_local_file'', JBool (\<not> isNetworkLink u))]
      else if k = ''browser_source''
      then [(''url'', JString u)]
      else [(''local_file'', JString u), (''url'', JString u)])"

text \<open>Lines 213--247, up to the \<open>await\<close>.\<close>

definition switchMedia :: "closure \<Rightarrow> LinkItem \<Rightarrow> sys \<Rightarrow> sys" where
  "switchMedia env link s =
     (if \<not> obs s \<or> \<not> cIsConnected env \<or> cSelectedSource env = [] then s
      else case findSource (cSelectedSource env) (cSources env) of
             None \<Rightarrow> fetchSources env (alert ''Source not found. Refreshing...'' s)
           | Some source \<Rightarrow>
               await (SetInputSettings (cSelectedSource env)
                        (settingsFor (kind source) (url link)) True)
                     (KSwitchMedia link) s)"

text \<open>Lines 243--251, from the \<open>await\<close> on.\<close>

definition switchMedia_resume :: "LinkItem \<Rightarrow> response \<Rightarrow> sys \<Rightarrow> sys" where
  "switchMedia_resume link r s =
     (case r of
        RError message \<Rightarrow> alert (''Failed to switch: '' @ message) s
      | _ \<Rightarrow> s\<lparr>currentSourceUrl := Some (url link)\<rparr>)"

section \<open>Connection (lines 99--144)\<close>

text \<open>The \<open>ConnectionClosed\<close> listener, lines 112--116.\<close>

definition connectionClosed :: "sys \<Rightarrow> sys" where
  "connectionClosed s =
     s\<lparr>isConnected := False, connError := Some ''Connection lost.'',
       currentSourceUrl := None\<rparr>"

text \<open>Lines 99--105, up to the \<open>await\<close>.\<close>

definition connectToOBS :: "closure \<Rightarrow> sys \<Rightarrow> sys" where
  "connectToOBS env s = await Connect (KConnect env) (s\<lparr>connError := None, obs := True\<rparr>)"

text \<open>Lines 105--135, from the \<open>await\<close> on. Both listeners are created here, inside the
  closure \<open>env\<close> of the render whose button was clicked, and \<open>fetchSources\<close> is that
  render's as well.\<close>

definition connectToOBS_resume :: "closure \<Rightarrow> response \<Rightarrow> sys \<Rightarrow> sys" where
  "connectToOBS_resume env r s =
     (case r of
        RError message \<Rightarrow>
          s\<lparr>isConnected := False,
            connError := Some (orElse (Some message) ''Failed to connect. Check details.'')\<rparr>
      | _ \<Rightarrow> fetchSources env (s\<lparr>isConnected := True, listeners := listeners s @ [env]\<rparr>))"

text \<open>Lines 138--144.\<close>

definition disconnectOBS :: "sys \<Rightarrow> sys" where
  "disconnectOBS s = (if obs s then await Disconnect KDisconnect s else s)"

definition disconnectOBS_resume :: "response \<Rightarrow> sys \<Rightarrow> sys" where
  "disconnectOBS_resume r s =
     (case r of
        RError _ \<Rightarrow> s
      | _ \<Rightarrow> s\<lparr>isConnected := False, currentSourceUrl := None\<rparr>)"

section \<open>Renders and events\<close>

text \<open>What a render captures.\<close>

definition snapshot :: "sys \<Rightarrow> closure" where
  "snapshot s =
     \<lparr>cIsConnected = isConnected s, cSelectedSource = selectedSource s,
      cSources = sources s\<rparr>"

text \<open>A render after a state change, with its effects in the order of the component
  body: the effect of line 150 (dependency \<open>selectedSource\<close>) and the effect of lines
  177--183 (dependencies \<open>selectedSource\<close>, \<open>isConnected\<close> and \<open>fetchActiveState\<close>, the
  last of which changes with \<open>isConnected\<close>). The effects write no dependency, so the
  render that follows them runs none.\<close>

definition commit :: "sys \<Rightarrow> sys" where
  "commit s =
     (let old = rendered s;
          new = snapshot s;
          s1 = (if cSelectedSource new = cSelectedSource old then s
                else s\<lparr>selectedSourceRef := cSelectedSource new\<rparr>);
          s2 = (if cSelectedSource new = cSelectedSource old \<and>
                   cIsConnected new = cIsConnected old
                then s1
                else selectionEffect new s1)
      in s2\<lparr>rendered := new\<rparr>)"

text \<open>The state after the first render: the effect of lines 66--91 has created the
  socket object.\<close>

definition mount :: sys where
  "mount =
     \<lparr>obs = True, isConnected = False, connError = None, sources = [],
      selectedSource = [], currentSourceUrl = None, selectedSourceRef = [],
      inflight = [], listeners = [], alerts = [],
      rendered = \<lparr>cIsConnected = False, cSelectedSource = [], cSources = []\<rparr>\<rparr>"

text \<open>What can happen to the page: the clicks of lines 400, 419, 428 and 458, the two
  events pushed by OBS, and the answer to the \<open>i\<close>-th call in flight. The page disables
  the link buttons while nothing is selected and takes no pointer events while
  disconnected; the events are not restricted accordingly, so \<open>ClickRefresh\<close> and
  \<open>ClickLink\<close> stand for any call of the latest render's \<open>fetchSources\<close> and
  \<open>switchMedia\<close>.\<close>

datatype event =
    ClickConnectButton
  | ClickRefresh
  | Select string
  | ClickLink LinkItem
  | ConnectionClosed
  | InputSettingsChanged string
  | Respond nat response

fun resume :: "pending \<Rightarrow> response \<Rightarrow> sys \<Rightarrow> sys" where
  "resume (KConnect env) r s = connectToOBS_resume env r s"
| "resume KDisconnect r s = disconnectOBS_resume r s"
| "resume KFetchActiveState r s = fetchActiveState_resume r s"
| "resume (KFetchSources env) r s = fetchSources_resume env r s"
| "resume (KSwitchMedia link) r s = switchMedia_resume link r s"

fun handle :: "event \<Rightarrow> sys \<Rightarrow> sys" where
  "handle ClickConnectButton s =
     (if cIsConnected (rendered s) then disconnectOBS s else connectToOBS (rendered s) s)"
| "handle ClickRefresh s = fetchSources (rendered s) s"
| "handle (Select n) s = s\<lparr>selectedSource := n\<rparr>"
| "handle (ClickLink link) s = switchMedia (rendered s) link s"
| "handle ConnectionClosed s = fold (\<lambda>_. connectionClosed) (listeners s) s"
| "handle (InputSettingsChanged n) s =
     fold (\<lambda>env. updateActiveStateIfMatches env n) (listeners s) s"
| "handle (Respond i r) s =
     (if i < length (inflight s)
      then resume (snd (inflight s ! i)) r
             (s\<lparr>inflight := take i (inflight s) @ drop (Suc i) (inflight s)\<rparr>)
      else s)"

definition step :: "sys \<Rightarrow> event \<Rightarrow> sys" where
  "step s e = commit (handle e s)"

definition run :: "event list \<Rightarrow> sys" where
  "run es = foldl step mount es"

section \<open>Closures of the connect button\<close>

text \<open>A continuation or a listener created by \<open>connectToOBS\<close> is \<^emph>\<open>stale\<close> when the
  render it closes over had \<open>isConnected = false\<close>.\<close>

fun stalePending :: "pending \<Rightarrow> bool" where
  "stalePending (KConnect env) = (\<not> cIsConnected env)"
| "stalePending _ = True"

definition staleConnects :: "sys \<Rightarrow> bool" where
  "staleConnects s =
     (list_all (\<lambda>env. \<not> cIsConnected env) (listeners s) \<and>
      list_all (\<lambda>p. stalePending (snd p)) (inflight s))"

section \<open>Example data\<close>

text \<open>Two inputs as OBS lists them, two links, and the first events of a session: the
  connection is made, the sources are listed (which selects \<open>A\<close> and starts the fetch
  of its settings), and that fetch is answered.\<close>

definition inA :: obs_input where
  "inA = \<lparr>inputName = ''A'', inputKind = Some ''ffmpeg_source''\<rparr>"

definition inB :: obs_input where
  "inB = \<lparr>inputName = ''B'', inputKind = Some ''browser_source''\<rparr>"

definition linkRtmp :: LinkItem where
  "linkRtmp = \<lparr>link_id = ''k1'', link_name = ''Stream'', url = ''rtmp://x''\<rparr>"

definition linkFile :: LinkItem where
  "linkFile = \<lparr>link_id = ''k2'', link_name = ''Clip'', url = ''C:/clip.mp4''\<rparr>"

definition session_listed :: "event list" where
  "session_listed =
     [ClickConnectButton, Respond 0 ROk, ClickRefresh, Respond 0 (RInputList [inA, inB])]"

definition session_settled :: "event list" where
  "session_settled =
     session_listed @ [Respond 0 (RInputSettings ''ffmpeg_source'' [(''local_file'', ''a.mp4'')])]"

text \<open>A refresh is clicked while \<open>A\<close> is selected, \<open>B\<close> is selected before the answer
  comes, and the answer lists \<open>A\<close> alone.\<close>

definition session_refresh_race :: "event list" where
  "session_refresh_race =
     session_settled @ [ClickRefresh, Select ''B'', Respond 0 (RInputList [inA])]"

text \<open>\<open>B\<close> is selected while the fetch for \<open>A\<close> is in flight, and the fetch for \<open>B\<close> is
  answered first.\<close>

definition session_reselected :: "event list" where
  "session_reselected =
     session_listed @
       [Select ''B'', Respond 1 (RInputSettings ''browser_source'' [(''url'', ''http://b'')])]"

text \<open>\<open>B\<close> is selected and then \<open>A\<close> again, with no answer in between: two fetches for
  \<open>A\<close> are in flight, the older at position 0 and the newer at position 2.\<close>

definition session_back_and_forth :: "event list" where
  "session_back_and_forth = session_listed @ [Select ''B'', Select ''A'']"

text \<open>\<open>a.mp4\<close> is known to play on \<open>A\<close>, then \<open>B\<close> is selected.\<close>

definition session_B_selected :: "event list" where
  "session_B_selected = session_settled @ [Select ''B'']"


section \<open>Properties of the model\<close>

lemmas model_defs = commit_def snapshot_def
  connectToOBS_def connectToOBS_resume_def disconnectOBS_def disconnectOBS_resume_def
  fetchSources_def fetchSources_resume_def fetchActiveState_def fetchActiveState_resume_def
  updateActiveStateIfMatches_def selectionEffect_def switchMedia_def switchMedia_resume_def
  connectionClosed_def await_def alert_def Let_def

lemmas eval_defs = run_def step_def mount_def mediaSourcesOf_def supported_def toSource_def
  findSource_def SUPPORTED_KINDS_def activeUrlOf_def orElse_def settingsFor_def
  isNetworkLink_def inA_def inB_def linkRtmp_def session_listed_def session_settled_def

subsection \<open>Renders\<close>

lemma snapshot_commit: "rendered (commit s) = snapshot (commit s)"
  by (simp add: model_defs)

lemma commit_stable: "rendered s = snapshot s \<Longrightarrow> commit s = s"
  by (simp add: commit_def Let_def)

lemma run_snoc: "run (es @ [e]) = step (run es) e"
  by (simp add: run_def)

lemma rendered_run: "rendered (run es) = snapshot (run es)"
proof (induction es rule: rev_induct)
  case Nil
  show ?case by (simp add: run_def mount_def snapshot_def)
next
  case (snoc e es)
  show ?case by (simp add: run_snoc step_def snapshot_commit)
qed

subsection \<open>Listeners\<close>

lemma fold_connectionClosed:
  "fold (\<lambda>_. connectionClosed) ls s = (if ls = [] then s else connectionClosed s)"
proof (induction ls arbitrary: s)
  case Nil
  show ?case by simp
next
  case (Cons l ls)
  have "connectionClosed (connectionClosed s) = connectionClosed s"
    by (simp add: connectionClosed_def)
  with Cons show ?case by simp
qed

lemma fold_update_stale:
  "\<forall>env\<in>set ls. \<not> cIsConnected env \<Longrightarrow>
   fold (\<lambda>env. updateActiveStateIfMatches env n) ls s = s"
  by (induction ls arbitrary: s)
     (simp_all add: updateActiveStateIfMatches_def fetchActiveState_def)

lemma fold_update_obs:
  "obs (fold (\<lambda>env. updateActiveStateIfMatches env n) ls s) = obs s"
  by (induction ls arbitrary: s)
     (simp_all add: updateActiveStateIfMatches_def fetchActiveState_def await_def)

lemma obs_commit: "obs (commit s) = obs s"
  by (simp add: model_defs)

lemma obs_handle:
  assumes "obs s"
  shows "obs (handle e s)"
proof (cases e)
  case (Respond i r)
  with assms show ?thesis
    by (cases "snd (inflight s ! i)"; cases r)
       (simp_all add: model_defs split: list.splits)
qed (use assms in \<open>simp_all add: model_defs fold_connectionClosed fold_update_obs split: option.splits\<close>)

lemma obs_run: "obs (run es)"
proof (induction es rule: rev_induct)
  case Nil
  show ?case by (simp add: run_def mount_def)
next
  case (snoc e es)
  then show ?case by (simp add: run_snoc step_def obs_commit obs_handle)
qed


subsection \<open>Closures of the connect button\<close>

lemma staleConnects_commit: "staleConnects (commit s) = staleConnects s"
  by (simp add: model_defs staleConnects_def)

lemma staleConnects_update:
  "staleConnects (updateActiveStateIfMatches env n s) = staleConnects s"
  by (simp add: updateActiveStateIfMatches_def fetchActiveState_def await_def staleConnects_def)

lemma staleConnects_fold_update:
  "staleConnects (fold (\<lambda>env. updateActiveStateIfMatches env n) ls s) = staleConnects s"
  by (induction ls arbitrary: s) (simp_all add: staleConnects_update)

lemma list_all_remove_nth:
  "list_all P xs \<Longrightarrow> list_all P (take i xs @ drop (Suc i) xs)"
  by (auto simp: list_all_iff dest: in_set_takeD in_set_dropD)

lemma staleConnects_resume:
  assumes "staleConnects s" and "stalePending k"
  shows "staleConnects (resume k r s)"
proof (cases k)
  case (KConnect env)
  with assms show ?thesis
    by (cases r) (simp_all add: model_defs staleConnects_def)
next
  case KDisconnect
  with assms show ?thesis
    by (cases r) (simp_all add: model_defs staleConnects_def)
next
  case KFetchActiveState
  with assms show ?thesis
    by (cases r) (simp_all add: model_defs staleConnects_def)
next
  case (KFetchSources env)
  with assms show ?thesis
    by (cases r) (simp_all add: model_defs staleConnects_def split: list.splits)
next
  case (KSwitchMedia link)
  with assms show ?thesis
    by (cases r) (simp_all add: model_defs staleConnects_def)
qed

lemma staleConnects_handle:
  assumes "staleConnects s"
  shows "staleConnects (handle e s)"
proof (cases e)
  case (Respond i r)
  show ?thesis
  proof (cases "i < length (inflight s)")
    case False
    with Respond assms show ?thesis by simp
  next
    case True
    from assms have all: "list_all (\<lambda>p. stalePending (snd p)) (inflight s)"
      by (simp add: staleConnects_def)
    with True have k: "stalePending (snd (inflight s ! i))"
      by (simp add: list_all_length)
    from assms list_all_remove_nth [OF all, of i]
    have "staleConnects (s\<lparr>inflight := take i (inflight s) @ drop (Suc i) (inflight s)\<rparr>)"
      by (simp add: staleConnects_def)
    with k Respond True show ?thesis
      by (simp add: staleConnects_resume)
  qed
next
  case (InputSettingsChanged n)
  with assms show ?thesis by (simp add: staleConnects_fold_update)
next
  case ConnectionClosed
  with assms show ?thesis
    by (simp add: fold_connectionClosed connectionClosed_def staleConnects_def)
qed (use assms in \<open>simp_all add: model_defs staleConnects_def split: option.splits\<close>)

lemma staleConnects_run: "staleConnects (run es)"
proof (induction es rule: rev_induct)
  case Nil
  show ?case by (simp add: run_def mount_def staleConnects_def)
next
  case (snoc e es)
  then show ?case
    by (simp add: run_snoc step_def staleConnects_commit staleConnects_handle)
qed

text \<open>No listener that \<open>connectToOBS\<close> registered ever fetches: in every reachable state
  an \<open>InputSettingsChanged\<close> event leaves the whole state as it was.\<close>

lemma input_settings_changed_ignored:
  "run (es @ [InputSettingsChanged n]) = run es"
proof -
  have "\<forall>env\<in>set (listeners (run es)). \<not> cIsConnected env"
    using staleConnects_run [of es] by (simp add: staleConnects_def list_all_iff)
  then have "handle (InputSettingsChanged n) (run es) = run es"
    by (simp add: fold_update_stale)
  then show ?thesis
    by (simp add: run_snoc step_def commit_stable rendered_run)
qed


subsection \<open>Single steps from a rendered state\<close>

lemma step_ClickLink:
  "rendered s = snapshot s \<Longrightarrow> step s (ClickLink link) = switchMedia (snapshot s) link s"
  by (simp add: step_def model_defs split: option.splits)

lemma step_fetch_answer:
  assumes "rendered s = snapshot s" and "i < length (inflight s)"
    and "snd (inflight s ! i) = KFetchActiveState"
  shows "step s (Respond i r) =
           fetchActiveState_resume r
             (s\<lparr>inflight := take i (inflight s) @ drop (Suc i) (inflight s)\<rparr>)"
  using assms by (cases r) (simp_all add: step_def model_defs)

lemma step_switch_answer:
  assumes "rendered s = snapshot s" and "i < length (inflight s)"
    and "snd (inflight s ! i) = KSwitchMedia link"
  shows "step s (Respond i r) =
           switchMedia_resume link r
             (s\<lparr>inflight := take i (inflight s) @ drop (Suc i) (inflight s)\<rparr>)"
  using assms by (cases r) (simp_all add: step_def model_defs)

lemma findSource_None: "findSource n xs = None \<longleftrightarrow> n \<notin> name ` set xs"
  by (auto simp: findSource_def find_None_iff)

lemma run_fetch_answer:
  assumes "i < length (inflight (run es))"
    and "inflight (run es) ! i = (GetInputSettings a, KFetchActiveState)"
  shows "run (es @ [Respond i r]) =
           fetchActiveState_resume r
             ((run es)\<lparr>inflight := take i (inflight (run es)) @ drop (Suc i) (inflight (run es))\<rparr>)"
  using assms by (simp add: run_snoc step_fetch_answer rendered_run)

section \<open>The claims\<close>

subsection \<open>C1: what a closed connection clears\<close>

text \<open>
  Claim C1, as the code has it. When a \<open>ConnectionClosed\<close> event reaches a registered
  listener, and when the \<open>disconnect\<close> call of \<open>disconnectOBS\<close> resolves, the render
  that follows has \<open>isConnected = false\<close> and \<open>currentSourceUrl = null\<close> (ActiveTarget
  unknown). The sources list and the selection are not cleared: both keep the values
  they had before. This holds from any state \<open>s\<close>.
\<close>

theorem C1_disconnect_keeps_sources_and_selection:
  "(listeners s \<noteq> [] \<longrightarrow>
      \<not> isConnected (step s ConnectionClosed) \<and>
      currentSourceUrl (step s ConnectionClosed) = None \<and>
      sources (step s ConnectionClosed) = sources s \<and>
      selectedSource (step s ConnectionClosed) = selectedSource s) \<and>
   (i < length (inflight s) \<and> snd (inflight s ! i) = KDisconnect \<longrightarrow>
      \<not> isConnected (step s (Respond i ROk)) \<and>
      currentSourceUrl (step s (Respond i ROk)) = None \<and>
      sources (step s (Respond i ROk)) = sources s \<and>
      selectedSource (step s (Respond i ROk)) = selectedSource s)"
  by (simp add: step_def fold_connectionClosed model_defs)

text \<open>The theorem at the settled session, for the event and for the disconnect button.\<close>

theorem C1_witness:
  "listeners (run session_settled) \<noteq> [] \<and>
   \<not> isConnected (step (run session_settled) ConnectionClosed) \<and>
   currentSourceUrl (step (run session_settled) ConnectionClosed) = None \<and>
   sources (step (run session_settled) ConnectionClosed) = sources (run session_settled) \<and>
   selectedSource (step (run session_settled) ConnectionClosed) =
     selectedSource (run session_settled) \<and>
   snd (inflight (run (session_settled @ [ClickConnectButton])) ! 0) = KDisconnect \<and>
   \<not> isConnected (step (run (session_settled @ [ClickConnectButton])) (Respond 0 ROk)) \<and>
   currentSourceUrl (step (run (session_settled @ [ClickConnectButton])) (Respond 0 ROk)) = None \<and>
   sources (step (run (session_settled @ [ClickConnectButton])) (Respond 0 ROk)) =
     sources (run (session_settled @ [ClickConnectButton])) \<and>
   selectedSource (step (run (session_settled @ [ClickConnectButton])) (Respond 0 ROk)) =
     selectedSource (run (session_settled @ [ClickConnectButton]))"
proof -
  have a: "listeners (run session_settled) \<noteq> []"
    by (simp add: eval_defs model_defs)
  have b: "inflight (run (session_settled @ [ClickConnectButton])) = [(Disconnect, KDisconnect)]"
    by (simp add: eval_defs model_defs)
  from a b
    C1_disconnect_keeps_sources_and_selection [of "run session_settled" 0]
    C1_disconnect_keeps_sources_and_selection [of "run (session_settled @ [ClickConnectButton])" 0]
  show ?thesis by simp
qed

text \<open>Against C1 as stated: after the settled session, a \<open>ConnectionClosed\<close> event, or a
  click on Disconnect and its answer, leaves both sources listed and \<open>A\<close> selected.\<close>

theorem C1_counterexample:
  "sources (run (session_settled @ [ConnectionClosed])) =
     [\<lparr>name = ''A'', kind = ''ffmpeg_source''\<rparr>, \<lparr>name = ''B'', kind = ''browser_source''\<rparr>] \<and>
   selectedSource (run (session_settled @ [ConnectionClosed])) = ''A'' \<and>
   currentSourceUrl (run (session_settled @ [ConnectionClosed])) = None \<and>
   sources (run (session_settled @ [ClickConnectButton, Respond 0 ROk])) =
     [\<lparr>name = ''A'', kind = ''ffmpeg_source''\<rparr>, \<lparr>name = ''B'', kind = ''browser_source''\<rparr>] \<and>
   selectedSource (run (session_settled @ [ClickConnectButton, Respond 0 ROk])) = ''A'' \<and>
   currentSourceUrl (run (session_settled @ [ClickConnectButton, Respond 0 ROk])) = None"
  by (simp add: eval_defs model_defs)

subsection \<open>C2: the \<open>InputSettingsChanged\<close> listener\<close>

text \<open>
  Claim C2 says that an \<open>InputSettingsChanged\<close> event for the live selection triggers a
  reconciliation fetch. The listener does compare the event's name with
  \<open>selectedSourceRef.current\<close>, the live selection. But the \<open>fetchActiveState\<close> it then
  calls is the one of the render in which Connect was clicked, whose \<open>isConnected\<close> is
  \<open>false\<close>, so line 159 returns before \<open>GetInputSettings\<close> is called. At the settled
  session (connected, \<open>A\<close> selected, the ref holding \<open>A\<close>, nothing in flight) the event
  for \<open>A\<close> issues no request and changes nothing.
\<close>

theorem C2_matching_event_issues_no_fetch:
  "isConnected (run session_settled) \<and>
   selectedSource (run session_settled) = ''A'' \<and>
   selectedSourceRef (run session_settled) = ''A'' \<and>
   listeners (run session_settled) =
     [\<lparr>cIsConnected = False, cSelectedSource = [], cSources = []\<rparr>] \<and>
   inflight (run session_settled) = [] \<and>
   inflight (run (session_settled @ [InputSettingsChanged ''A''])) = [] \<and>
   run (session_settled @ [InputSettingsChanged ''A'']) = run session_settled"
  by (simp add: eval_defs model_defs)

subsection \<open>C3: an answer for a selection that is no longer current\<close>

text \<open>
  Claim C3, as the code has it. A successful answer to a fetch of input \<open>a\<close> that is in
  flight is applied whenever it arrives: \<open>currentSourceUrl\<close> becomes the value extracted
  from it, whatever the selection is by then, and the selection stays as it is. The
  statement has no hypothesis on the selection: \<open>es\<close> may have selected another input
  after the fetch was issued.
\<close>

theorem C3_late_answer_is_applied:
  assumes "i < length (inflight (run es))"
    and "inflight (run es) ! i = (GetInputSettings a, KFetchActiveState)"
  shows "currentSourceUrl (run (es @ [Respond i (RInputSettings k st)])) = Some (activeUrlOf k st) \<and>
         selectedSource (run (es @ [Respond i (RInputSettings k st)])) = selectedSource (run es)"
  using run_fetch_answer [OF assms] by (simp add: fetchActiveState_resume_def)

text \<open>The theorem where \<open>B\<close> is selected and the fetch for \<open>A\<close> is still in flight.\<close>

theorem C3_witness:
  "inflight (run session_reselected) = [(GetInputSettings ''A'', KFetchActiveState)] \<and>
   selectedSource (run session_reselected) = ''B'' \<and>
   currentSourceUrl
     (run (session_reselected @
        [Respond 0 (RInputSettings ''ffmpeg_source'' [(''local_file'', ''a.mp4'')])])) =
     Some ''a.mp4'' \<and>
   selectedSource
     (run (session_reselected @
        [Respond 0 (RInputSettings ''ffmpeg_source'' [(''local_file'', ''a.mp4'')])])) =
     ''B''"
proof -
  have s: "inflight (run session_reselected) = [(GetInputSettings ''A'', KFetchActiveState)] \<and>
      selectedSource (run session_reselected) = ''B''"
    by (simp add: session_reselected_def eval_defs model_defs)
  from s C3_late_answer_is_applied
    [of 0 session_reselected "''A''" "''ffmpeg_source''" "[(''local_file'', ''a.mp4'')]"]
  show ?thesis by (simp add: activeUrlOf_def orElse_def)
qed

text \<open>Against C3 as stated: \<open>B\<close> is selected and ActiveTarget is \<open>B\<close>'s \<open>http://b\<close>; the
  late answer for \<open>A\<close> then replaces it by \<open>A\<close>'s \<open>a.mp4\<close> while \<open>B\<close> stays selected.\<close>

theorem C3_counterexample:
  "selectedSource (run session_reselected) = ''B'' \<and>
   currentSourceUrl (run session_reselected) = Some ''http://b'' \<and>
   inflight (run session_reselected) = [(GetInputSettings ''A'', KFetchActiveState)] \<and>
   selectedSource
     (run (session_reselected @
        [Respond 0 (RInputSettings ''ffmpeg_source'' [(''local_file'', ''a.mp4'')])])) =
     ''B'' \<and>
   currentSourceUrl
     (run (session_reselected @
        [Respond 0 (RInputSettings ''ffmpeg_source'' [(''local_file'', ''a.mp4'')])])) =
     Some ''a.mp4''"
  by (simp add: session_reselected_def eval_defs model_defs)

subsection \<open>C4: two fetches for the same input\<close>

text \<open>
  Claim C4, as the code has it. Calls in flight are listed in the order they were
  issued. When two fetches for the same input \<open>x\<close> are in flight, the earlier at \<open>i\<close> and
  the later at \<open>j\<close>, and the later is answered first, \<open>currentSourceUrl\<close> first takes the
  later fetch's result and then, when the earlier fetch is answered, the earlier
  fetch's result: the answer that arrives last is the one that stays.
\<close>

theorem C4_last_arrived_wins:
  assumes "i < j" and "j < length (inflight (run es))"
    and "inflight (run es) ! i = (GetInputSettings x, KFetchActiveState)"
    and "inflight (run es) ! j = (GetInputSettings x, KFetchActiveState)"
  shows "currentSourceUrl (run (es @ [Respond j (RInputSettings k2 st2)])) =
           Some (activeUrlOf k2 st2) \<and>
         currentSourceUrl
           (run ((es @ [Respond j (RInputSettings k2 st2)]) @ [Respond i (RInputSettings k1 st1)])) =
           Some (activeUrlOf k1 st1)"
proof -
  let ?es' = "es @ [Respond j (RInputSettings k2 st2)]"
  have first: "run ?es' =
      fetchActiveState_resume (RInputSettings k2 st2)
        ((run es)\<lparr>inflight := take j (inflight (run es)) @ drop (Suc j) (inflight (run es))\<rparr>)"
    using assms(2,4) by (rule run_fetch_answer)
  then have fl: "inflight (run ?es') = take j (inflight (run es)) @ drop (Suc j) (inflight (run es))"
    by (simp add: fetchActiveState_resume_def)
  from assms(1,2) have len: "i < length (inflight (run ?es'))"
    by (simp add: fl)
  from assms(1,2,3) have nth: "inflight (run ?es') ! i = (GetInputSettings x, KFetchActiveState)"
    by (simp add: fl nth_append)
  have "run (?es' @ [Respond i (RInputSettings k1 st1)]) =
      fetchActiveState_resume (RInputSettings k1 st1)
        ((run ?es')\<lparr>inflight := take i (inflight (run ?es')) @ drop (Suc i) (inflight (run ?es'))\<rparr>)"
    using len nth by (rule run_fetch_answer)
  with first show ?thesis
    by (simp add: fetchActiveState_resume_def)
qed

text \<open>The theorem with the two fetches for \<open>A\<close> at positions 0 and 2.\<close>

theorem C4_witness:
  "inflight (run session_back_and_forth) =
     [(GetInputSettings ''A'', KFetchActiveState), (GetInputSettings ''B'', KFetchActiveState),
      (GetInputSettings ''A'', KFetchActiveState)] \<and>
   currentSourceUrl
     (run (session_back_and_forth @
        [Respond 2 (RInputSettings ''ffmpeg_source'' [(''local_file'', ''new.mp4'')])])) =
     Some ''new.mp4'' \<and>
   currentSourceUrl
     (run ((session_back_and_forth @
        [Respond 2 (RInputSettings ''ffmpeg_source'' [(''local_file'', ''new.mp4'')])]) @
        [Respond 0 (RInputSettings ''ffmpeg_source'' [(''local_file'', ''old.mp4'')])])) =
     Some ''old.mp4''"
proof -
  have s: "inflight (run session_back_and_forth) =
     [(GetInputSettings ''A'', KFetchActiveState), (GetInputSettings ''B'', KFetchActiveState),
      (GetInputSettings ''A'', KFetchActiveState)]"
    by (simp add: session_back_and_forth_def eval_defs model_defs)
  from s C4_last_arrived_wins
    [of 0 2 session_back_and_forth "''A''" "''ffmpeg_source''" "[(''local_file'', ''new.mp4'')]"
        "''ffmpeg_source''" "[(''local_file'', ''old.mp4'')]"]
  show ?thesis by (simp add: activeUrlOf_def orElse_def)
qed

text \<open>Against C4 as stated: the fetch issued second answers \<open>new.mp4\<close>, the fetch issued
  first answers \<open>old.mp4\<close> afterwards, and ActiveTarget ends as \<open>old.mp4\<close>.\<close>

theorem C4_counterexample:
  "selectedSource (run session_back_and_forth) = ''A'' \<and>
   inflight (run session_back_and_forth) =
     [(GetInputSettings ''A'', KFetchActiveState), (GetInputSettings ''B'', KFetchActiveState),
      (GetInputSettings ''A'', KFetchActiveState)] \<and>
   currentSourceUrl
     (run (session_back_and_forth @
        [Respond 2 (RInputSettings ''ffmpeg_source'' [(''local_file'', ''new.mp4'')]),
         Respond 0 (RInputSettings ''ffmpeg_source'' [(''local_file'', ''old.mp4'')])])) =
     Some ''old.mp4'' \<and>
   selectedSource
     (run (session_back_and_forth @
        [Respond 2 (RInputSettings ''ffmpeg_source'' [(''local_file'', ''new.mp4'')]),
         Respond 0 (RInputSettings ''ffmpeg_source'' [(''local_file'', ''old.mp4'')])])) = ''A''"
  by (simp add: session_back_and_forth_def eval_defs model_defs)

subsection \<open>C5: the settings sent for each kind of source\<close>

text \<open>
  Claim C5. When \<open>switchMedia\<close> passes its guards and finds the selected source, it sends
  one \<open>SetInputSettings\<close> whose settings are, for \<open>ffmpeg_source\<close> and \<open>vlc_source\<close>,
  exactly \<open>local_file = link.url\<close> and \<open>is_local_file = \<not> isNetwork\<close>, where \<open>isNetwork\<close>
  holds iff the url begins with \<open>http\<close>, \<open>rtmp\<close>, \<open>srt\<close> or \<open>udp\<close>; for \<open>browser_source\<close>,
  exactly \<open>url = link.url\<close>; and for any other kind, \<open>local_file = link.url\<close> and
  \<open>url = link.url\<close>.
\<close>

theorem C5_switchMedia_field_mapping:
  assumes "obs s" and "cIsConnected env" and "cSelectedSource env \<noteq> []"
    and "findSource (cSelectedSource env) (cSources env) = Some source"
  shows
    "(kind source = ''ffmpeg_source'' \<or> kind source = ''vlc_source'' \<longrightarrow>
        switchMedia env link s =
          await (SetInputSettings (cSelectedSource env)
                   [(''local_file'', JString (url link)),
                    (''is_local_file'',
                       JBool (\<not> (prefix ''http'' (url link) \<or> prefix ''rtmp'' (url link) \<or>
                                 prefix ''srt'' (url link) \<or> prefix ''udp'' (url link))))]
                   True)
                (KSwitchMedia link) s) \<and>
     (kind source = ''browser_source'' \<longrightarrow>
        switchMedia env link s =
          await (SetInputSettings (cSelectedSource env) [(''url'', JString (url link))] True)
                (KSwitchMedia link) s) \<and>
     (kind source \<noteq> ''ffmpeg_source'' \<and> kind source \<noteq> ''vlc_source'' \<and>
      kind source \<noteq> ''browser_source'' \<longrightarrow>
        switchMedia env link s =
          await (SetInputSettings (cSelectedSource env)
                   [(''local_file'', JString (url link)), (''url'', JString (url link))] True)
                (KSwitchMedia link) s)"
  using assms by (simp add: switchMedia_def settingsFor_def isNetworkLink_def)

text \<open>The theorem for a network link on \<open>vlc_source\<close>, a file on \<open>ffmpeg_source\<close>, a link
  on \<open>browser_source\<close> and a link on a kind outside the three.\<close>

theorem C5_witness:
  "inflight
     (switchMedia
        \<lparr>cIsConnected = True, cSelectedSource = ''A'',
         cSources = [\<lparr>name = ''A'', kind = ''vlc_source''\<rparr>]\<rparr> linkRtmp mount) =
     [(SetInputSettings ''A''
         [(''local_file'', JString ''rtmp://x''), (''is_local_file'', JBool False)] True,
       KSwitchMedia linkRtmp)] \<and>
   inflight
     (switchMedia
        \<lparr>cIsConnected = True, cSelectedSource = ''A'',
         cSources = [\<lparr>name = ''A'', kind = ''ffmpeg_source''\<rparr>]\<rparr> linkFile mount) =
     [(SetInputSettings ''A''
         [(''local_file'', JString ''C:/clip.mp4''), (''is_local_file'', JBool True)] True,
       KSwitchMedia linkFile)] \<and>
   inflight
     (switchMedia
        \<lparr>cIsConnected = True, cSelectedSource = ''B'',
         cSources = [\<lparr>name = ''B'', kind = ''browser_source''\<rparr>]\<rparr> linkRtmp mount) =
     [(SetInputSettings ''B'' [(''url'', JString ''rtmp://x'')] True, KSwitchMedia linkRtmp)] \<and>
   inflight
     (switchMedia
        \<lparr>cIsConnected = True, cSelectedSource = ''C'',
         cSources = [\<lparr>name = ''C'', kind = ''image_source''\<rparr>]\<rparr> linkRtmp mount) =
     [(SetInputSettings ''C''
         [(''local_file'', JString ''rtmp://x''), (''url'', JString ''rtmp://x'')] True,
       KSwitchMedia linkRtmp)]"
proof -
  have obs: "obs mount" by (simp add: mount_def)
  have empty: "inflight mount = []" by (simp add: mount_def)
  note a = C5_switchMedia_field_mapping
    [of mount "\<lparr>cIsConnected = True, cSelectedSource = ''A'',
         cSources = [\<lparr>name = ''A'', kind = ''vlc_source''\<rparr>]\<rparr>"
        "\<lparr>name = ''A'', kind = ''vlc_source''\<rparr>" linkRtmp, OF obs]
  note b = C5_switchMedia_field_mapping
    [of mount "\<lparr>cIsConnected = True, cSelectedSource = ''A'',
         cSources = [\<lparr>name = ''A'', kind = ''ffmpeg_source''\<rparr>]\<rparr>"
        "\<lparr>name = ''A'', kind = ''ffmpeg_source''\<rparr>" linkFile, OF obs]
  note c = C5_switchMedia_field_mapping
    [of mount "\<lparr>cIsConnected = True, cSelectedSource = ''B'',
         cSources = [\<lparr>name = ''B'', kind = ''browser_source''\<rparr>]\<rparr>"
        "\<lparr>name = ''B'', kind = ''browser_source''\<rparr>" linkRtmp, OF obs]
  note d = C5_switchMedia_field_mapping
    [of mount "\<lparr>cIsConnected = True, cSelectedSource = ''C'',
         cSources = [\<lparr>name = ''C'', kind = ''image_source''\<rparr>]\<rparr>"
        "\<lparr>name = ''C'', kind = ''image_source''\<rparr>" linkRtmp, OF obs]
  show ?thesis
    using a b c d empty
    by (simp add: findSource_def await_def linkRtmp_def linkFile_def)
qed

subsection \<open>C6: a switch without connection or selection\<close>

text \<open>
  Claim C6, as the code has it. In every reachable state that has no connection or no
  selection, a click on a link changes nothing at all: no call is made, no state cell
  changes, no message is shown and nothing is thrown. The two cases end in the same
  way, so the caller cannot tell them apart, nor tell either from a call that did
  nothing for another reason.
\<close>

theorem C6_switch_without_connection_or_selection_is_silent:
  "\<not> isConnected (run es) \<or> selectedSource (run es) = [] \<Longrightarrow>
   run (es @ [ClickLink link]) = run es"
proof -
  assume "\<not> isConnected (run es) \<or> selectedSource (run es) = []"
  then have "switchMedia (snapshot (run es)) link (run es) = run es"
    by (auto simp: switchMedia_def snapshot_def)
  then show ?thesis
    by (simp add: run_snoc step_ClickLink rendered_run)
qed

text \<open>The theorem before any connection, and after a connection with nothing selected.\<close>

theorem C6_witness:
  "\<not> isConnected (run []) \<and> run ([] @ [ClickLink linkRtmp]) = run [] \<and>
   selectedSource (run [ClickConnectButton, Respond 0 ROk]) = [] \<and>
   run ([ClickConnectButton, Respond 0 ROk] @ [ClickLink linkRtmp]) =
     run [ClickConnectButton, Respond 0 ROk]"
proof -
  have a: "\<not> isConnected (run [])"
    by (simp add: run_def mount_def)
  have b: "selectedSource (run [ClickConnectButton, Respond 0 ROk]) = []"
    by (simp add: eval_defs model_defs)
  from a b
    C6_switch_without_connection_or_selection_is_silent [of "[]" linkRtmp]
    C6_switch_without_connection_or_selection_is_silent
      [of "[ClickConnectButton, Respond 0 ROk]" linkRtmp]
  show ?thesis by blast
qed

text \<open>Against C6 as stated: a call before any connection leaves the initial state and
  shows no message; so does a call after the connection was lost with \<open>A\<close> still
  selected, and a call with a connection and no selection; and \<open>switchMedia\<close> returns
  the same in a closure without connection as in one without selection.\<close>

theorem C6_counterexample:
  "run [ClickLink linkRtmp] = mount \<and>
   alerts (run [ClickLink linkRtmp]) = [] \<and>
   \<not> isConnected (run (session_settled @ [ConnectionClosed])) \<and>
   selectedSource (run (session_settled @ [ConnectionClosed])) = ''A'' \<and>
   run (session_settled @ [ConnectionClosed, ClickLink linkRtmp]) =
     run (session_settled @ [ConnectionClosed]) \<and>
   alerts (run (session_settled @ [ConnectionClosed, ClickLink linkRtmp])) = [] \<and>
   isConnected (run [ClickConnectButton, Respond 0 ROk]) \<and>
   selectedSource (run [ClickConnectButton, Respond 0 ROk]) = [] \<and>
   run [ClickConnectButton, Respond 0 ROk, ClickLink linkRtmp] =
     run [ClickConnectButton, Respond 0 ROk] \<and>
   alerts (run [ClickConnectButton, Respond 0 ROk, ClickLink linkRtmp]) = [] \<and>
   switchMedia \<lparr>cIsConnected = False, cSelectedSource = ''A'', cSources = []\<rparr> linkRtmp mount =
     switchMedia \<lparr>cIsConnected = True, cSelectedSource = [], cSources = []\<rparr> linkRtmp mount"
  by (simp add: eval_defs model_defs)

subsection \<open>C7: the optimistic update\<close>

text \<open>
  Claim C7. In a reachable state with a connection and a selection that is among the
  sources, a click on a link sends \<open>SetInputSettings\<close> for the selection with
  \<open>overlay: true\<close> and does not touch \<open>currentSourceUrl\<close> yet. When the call resolves,
  \<open>currentSourceUrl\<close> becomes \<open>link.url\<close>, with no fetch in between. When it fails,
  \<open>currentSourceUrl\<close> keeps its value and the failure is shown in an alert.
\<close>

theorem C7_switch_success_and_failure:
  "(isConnected (run es) \<and> selectedSource (run es) \<noteq> [] \<and>
    findSource (selectedSource (run es)) (sources (run es)) = Some source \<longrightarrow>
      inflight (run (es @ [ClickLink link])) =
        inflight (run es) @
          [(SetInputSettings (selectedSource (run es)) (settingsFor (kind source) (url link)) True,
            KSwitchMedia link)] \<and>
      currentSourceUrl (run (es @ [ClickLink link])) = currentSourceUrl (run es)) \<and>
   (i < length (inflight (run es)) \<and> snd (inflight (run es) ! i) = KSwitchMedia link \<longrightarrow>
      currentSourceUrl (run (es @ [Respond i ROk])) = Some (url link) \<and>
      currentSourceUrl (run (es @ [Respond i (RError m)])) = currentSourceUrl (run es) \<and>
      alerts (run (es @ [Respond i (RError m)])) = alerts (run es) @ [''Failed to switch: '' @ m])"
proof -
  have r: "rendered (run es) = snapshot (run es)" by (rule rendered_run)
  have o: "obs (run es)" by (rule obs_run)
  have click: "run (es @ [ClickLink link]) = switchMedia (snapshot (run es)) link (run es)"
    by (simp add: run_snoc step_ClickLink r)
  have answer: "i < length (inflight (run es)) \<Longrightarrow> snd (inflight (run es) ! i) = KSwitchMedia link \<Longrightarrow>
      run (es @ [Respond i x]) =
        switchMedia_resume link x
          ((run es)\<lparr>inflight := take i (inflight (run es)) @ drop (Suc i) (inflight (run es))\<rparr>)"
    for x by (simp add: run_snoc step_switch_answer r)
  show ?thesis
    using o by (simp add: click answer switchMedia_def switchMedia_resume_def snapshot_def
        await_def alert_def)
qed

text \<open>The theorem at the settled session: the click, then the call resolving, or
  failing with \<open>timeout\<close>.\<close>

theorem C7_witness:
  "inflight (run (session_settled @ [ClickLink linkRtmp])) =
     [(SetInputSettings ''A''
         [(''local_file'', JString ''rtmp://x''), (''is_local_file'', JBool False)] True,
       KSwitchMedia linkRtmp)] \<and>
   currentSourceUrl (run (session_settled @ [ClickLink linkRtmp])) = Some ''a.mp4'' \<and>
   currentSourceUrl (run ((session_settled @ [ClickLink linkRtmp]) @ [Respond 0 ROk])) =
     Some ''rtmp://x'' \<and>
   currentSourceUrl
     (run ((session_settled @ [ClickLink linkRtmp]) @ [Respond 0 (RError ''timeout'')])) =
     Some ''a.mp4'' \<and>
   alerts (run ((session_settled @ [ClickLink linkRtmp]) @ [Respond 0 (RError ''timeout'')])) =
     [''Failed to switch: timeout'']"
proof -
  have s: "isConnected (run session_settled) \<and> selectedSource (run session_settled) = ''A'' \<and>
      sources (run session_settled) =
        [\<lparr>name = ''A'', kind = ''ffmpeg_source''\<rparr>, \<lparr>name = ''B'', kind = ''browser_source''\<rparr>] \<and>
      currentSourceUrl (run session_settled) = Some ''a.mp4'' \<and>
      inflight (run session_settled) = [] \<and> alerts (run session_settled) = []"
    by (simp add: eval_defs model_defs)
  have f: "findSource (selectedSource (run session_settled)) (sources (run session_settled)) =
      Some \<lparr>name = ''A'', kind = ''ffmpeg_source''\<rparr>"
    using s by (simp add: findSource_def)
  note a = C7_switch_success_and_failure
    [where es = session_settled and source = "\<lparr>name = ''A'', kind = ''ffmpeg_source''\<rparr>"
      and link = linkRtmp, THEN conjunct1]
  have a': "inflight (run (session_settled @ [ClickLink linkRtmp])) =
     [(SetInputSettings ''A''
         [(''local_file'', JString ''rtmp://x''), (''is_local_file'', JBool False)] True,
       KSwitchMedia linkRtmp)] \<and>
   currentSourceUrl (run (session_settled @ [ClickLink linkRtmp])) = Some ''a.mp4''"
    using a s f by (simp add: settingsFor_def isNetworkLink_def linkRtmp_def)
  note b = C7_switch_success_and_failure
    [where es = "session_settled @ [ClickLink linkRtmp]" and i = 0 and link = linkRtmp
      and m = "''timeout''", THEN conjunct2]
  have al: "alerts (run (session_settled @ [ClickLink linkRtmp])) = []"
    by (simp add: eval_defs model_defs)
  show ?thesis
    using a' b al by (simp add: linkRtmp_def)
qed

subsection \<open>C8: selection repair\<close>

text \<open>When the selection has not changed since the refresh was issued, the repair is as
  described: a selection among the new sources is kept, any other is replaced by the
  first new source, or by none when there is no source.\<close>

lemma selection_repair_without_interleaving:
  assumes "selectedSource s = cSelectedSource env"
  shows "selectedSource (fetchSources_resume env (RInputList inputs) s) =
           (if selectedSource s \<noteq> [] \<and> selectedSource s \<in> name ` set (mediaSourcesOf inputs)
            then selectedSource s
            else case mediaSourcesOf inputs of [] \<Rightarrow> [] | first # _ \<Rightarrow> name first) \<and>
         sources (fetchSources_resume env (RInputList inputs) s) = mediaSourcesOf inputs"
  using assms
  by (auto simp: fetchSources_resume_def Let_def findSource_None split: list.splits)

text \<open>
  Claim C8 says that after every successful refresh the selection is none or a name of
  the refreshed list. The repair after the \<open>await\<close> tests the \<open>selectedSource\<close> that
  \<open>fetchSources\<close> captured when it was called, not the selection of that moment. Here
  Refresh is clicked while \<open>A\<close> is selected, \<open>B\<close> is selected while \<open>GetInputList\<close> is in
  flight, and the answer lists \<open>A\<close> alone: the captured \<open>A\<close> is found, nothing is
  repaired, and the selection stays \<open>B\<close>, which is not in the list.
\<close>

theorem C8_selection_left_dangling:
  "selectedSource (run session_settled) = ''A'' \<and>
   inflight (run (session_settled @ [ClickRefresh, Select ''B''])) =
     [(GetInputList,
       KFetchSources
         \<lparr>cIsConnected = True, cSelectedSource = ''A'',
          cSources = [\<lparr>name = ''A'', kind = ''ffmpeg_source''\<rparr>,
                      \<lparr>name = ''B'', kind = ''browser_source''\<rparr>]\<rparr>),
      (GetInputSettings ''B'', KFetchActiveState)] \<and>
   mediaSourcesOf [inA] = [\<lparr>name = ''A'', kind = ''ffmpeg_source''\<rparr>] \<and>
   sources (run session_refresh_race) = [\<lparr>name = ''A'', kind = ''ffmpeg_source''\<rparr>] \<and>
   selectedSource (run session_refresh_race) = ''B''"
  by (simp add: session_refresh_race_def eval_defs model_defs)

subsection \<open>C9: what a fetch of the active state yields\<close>

text \<open>
  Claim C9, as the code has it. When a fetch in flight is answered, \<open>currentSourceUrl\<close>
  becomes: for \<open>browser_source\<close> the \<open>url\<close> field (the empty string when absent); for
  any other kind the \<open>local_file\<close> field, or, when that is absent or empty, the \<open>url\<close>
  field (the empty string when absent). When the call fails, as it does for an input
  that no longer exists, nothing but the list of calls in flight changes:
  \<open>currentSourceUrl\<close> keeps its value (it is not cleared) and no error is shown.
\<close>

theorem C9_extraction_and_silent_failure:
  assumes "i < length (inflight (run es))"
    and "inflight (run es) ! i = (GetInputSettings n, KFetchActiveState)"
  shows
    "currentSourceUrl (run (es @ [Respond i (RInputSettings ''browser_source'' st)])) =
       Some (case map_of st ''url'' of None \<Rightarrow> [] | Some u \<Rightarrow> u) \<and>
     (k \<noteq> ''browser_source'' \<longrightarrow>
        currentSourceUrl (run (es @ [Respond i (RInputSettings k st)])) =
          Some (case map_of st ''local_file'' of
                  None \<Rightarrow> (case map_of st ''url'' of None \<Rightarrow> [] | Some u \<Rightarrow> u)
                | Some f \<Rightarrow>
                    if f = [] then (case map_of st ''url'' of None \<Rightarrow> [] | Some u \<Rightarrow> u)
                    else f)) \<and>
     run (es @ [Respond i (RError m)]) =
       (run es)\<lparr>inflight := take i (inflight (run es)) @ drop (Suc i) (inflight (run es))\<rparr>"
  using run_fetch_answer [OF assms]
  by (simp add: fetchActiveState_resume_def activeUrlOf_def orElse_def split: option.splits)

text \<open>The theorem with the fetch for \<open>B\<close> in flight: a browser answer, two answers of
  another kind, and a failure.\<close>

theorem C9_witness:
  "inflight (run session_B_selected) = [(GetInputSettings ''B'', KFetchActiveState)] \<and>
   currentSourceUrl
     (run (session_B_selected @
        [Respond 0 (RInputSettings ''browser_source'' [(''url'', ''http://b'')])])) =
     Some ''http://b'' \<and>
   currentSourceUrl
     (run (session_B_selected @
        [Respond 0 (RInputSettings ''vlc_source'' [(''url'', ''http://b'')])])) =
     Some ''http://b'' \<and>
   currentSourceUrl
     (run (session_B_selected @
        [Respond 0 (RInputSettings ''vlc_source''
                      [(''local_file'', ''b.mp4''), (''url'', ''http://b'')])])) =
     Some ''b.mp4'' \<and>
   run (session_B_selected @ [Respond 0 (RError ''No source was found'')]) =
     (run session_B_selected)\<lparr>inflight := []\<rparr>"
proof -
  have s: "inflight (run session_B_selected) = [(GetInputSettings ''B'', KFetchActiveState)]"
    by (simp add: session_B_selected_def eval_defs model_defs)
  from s
    C9_extraction_and_silent_failure
      [of 0 session_B_selected "''B''" "[(''url'', ''http://b'')]" "''vlc_source''"
          "''No source was found''"]
    C9_extraction_and_silent_failure
      [of 0 session_B_selected "''B''" "[(''local_file'', ''b.mp4''), (''url'', ''http://b'')]"
          "''vlc_source''" "''No source was found''"]
  show ?thesis by simp
qed

text \<open>Against C9 as stated: \<open>B\<close> is selected while ActiveTarget is \<open>A\<close>'s \<open>a.mp4\<close>; the
  fetch for \<open>B\<close> fails because \<open>B\<close> is gone, and ActiveTarget is still \<open>a.mp4\<close>, not
  unknown.\<close>

theorem C9_counterexample:
  "selectedSource (run session_B_selected) = ''B'' \<and>
   inflight (run session_B_selected) = [(GetInputSettings ''B'', KFetchActiveState)] \<and>
   currentSourceUrl (run (session_B_selected @ [Respond 0 (RError ''No source was found'')])) =
     Some ''a.mp4'' \<and>
   selectedSource (run (session_B_selected @ [Respond 0 (RError ''No source was found'')])) = ''B''"
  by (simp add: session_B_selected_def eval_defs model_defs)

subsection \<open>C10: a switch when the selection is not among the sources\<close>

text \<open>
  Claim C10. In a reachable state with a connection and a selection that is not among
  the cached sources, a click on a link sends no \<open>SetInputSettings\<close>: the only call it
  adds is \<open>GetInputList\<close>, the refresh of the sources. \<open>currentSourceUrl\<close> keeps its
  value, and the alert \<open>Source not found. Refreshing...\<close> is shown.
\<close>

theorem C10_switch_with_unlisted_selection_refreshes:
  assumes "isConnected (run es)" and "selectedSource (run es) \<noteq> []"
    and "findSource (selectedSource (run es)) (sources (run es)) = None"
  shows "inflight (run (es @ [ClickLink link])) =
           inflight (run es) @ [(GetInputList, KFetchSources (snapshot (run es)))] \<and>
         currentSourceUrl (run (es @ [ClickLink link])) = currentSourceUrl (run es) \<and>
         alerts (run (es @ [ClickLink link])) =
           alerts (run es) @ [''Source not found. Refreshing...'']"
proof -
  have "run (es @ [ClickLink link]) = switchMedia (snapshot (run es)) link (run es)"
    by (simp add: run_snoc step_ClickLink rendered_run)
  with assms obs_run [of es] show ?thesis
    by (simp add: switchMedia_def fetchSources_def snapshot_def await_def alert_def)
qed

text \<open>The theorem where \<open>B\<close> is selected and \<open>A\<close> alone is listed.\<close>

theorem C10_witness:
  "isConnected (run session_refresh_race) \<and>
   selectedSource (run session_refresh_race) = ''B'' \<and>
   sources (run session_refresh_race) = [\<lparr>name = ''A'', kind = ''ffmpeg_source''\<rparr>] \<and>
   inflight (run (session_refresh_race @ [ClickLink linkRtmp])) =
     [(GetInputSettings ''B'', KFetchActiveState),
      (GetInputList,
       KFetchSources \<lparr>cIsConnected = True, cSelectedSource = ''B'',
                      cSources = [\<lparr>name = ''A'', kind = ''ffmpeg_source''\<rparr>]\<rparr>)] \<and>
   currentSourceUrl (run (session_refresh_race @ [ClickLink linkRtmp])) = Some ''a.mp4'' \<and>
   alerts (run (session_refresh_race @ [ClickLink linkRtmp])) =
     [''Source not found. Refreshing...'']"
proof -
  have s: "isConnected (run session_refresh_race) \<and>
      selectedSource (run session_refresh_race) = ''B'' \<and>
      sources (run session_refresh_race) = [\<lparr>name = ''A'', kind = ''ffmpeg_source''\<rparr>] \<and>
      currentSourceUrl (run session_refresh_race) = Some ''a.mp4'' \<and>
      inflight (run session_refresh_race) = [(GetInputSettings ''B'', KFetchActiveState)] \<and>
      alerts (run session_refresh_race) = []"
    by (simp add: session_refresh_race_def eval_defs model_defs)
  then have f: "findSource (selectedSource (run session_refresh_race))
      (sources (run session_refresh_race)) = None"
    by (simp add: findSource_def)
  from s C10_switch_with_unlisted_selection_refreshes [of session_refresh_race linkRtmp] f
  show ?thesis by (simp add: snapshot_def)
qed

end
